theory Spec2Isabelle
  imports Main "HOL-Library.Word"
begin

section \<open>The block adapters of CxxFlutterSwift\<close>

text \<open>
  \<^verbatim>\<open>Sources/CxxFlutterSwift/CxxFlutterSwift.cpp\<close> adapts two calls of the Flutter desktop
  engine's C API, which take a function pointer and a \<^verbatim>\<open>void *\<close> context, to callers
  that hand over a block (a closure object of the Blocks runtime). The file has two
  thunks, two adapter functions and one static table. They are embedded here as
  functions on an explicit \<open>world\<close>: the table, the Blocks runtime's heap, and the
  chronological list of calls that leave the file (to the runtime, to the engine, into
  a block).
\<close>

subsection \<open>Pointers and values\<close>

text \<open>
  A block pointer is null, or points to a block that still lives in its creator's stack
  frame (what the caller passes before any promotion), or to a block on the heap (what
  \<^verbatim>\<open>_Block_copy\<close> returns). The number identifies the block.
\<close>

datatype block_ptr = Null | StackBlock nat | HeapBlock nat

text \<open>
  The function pointers the file passes to the engine: \<^verbatim>\<open>nullptr\<close> or one of its two
  static thunks.
\<close>

datatype fn_ptr = NullFn | BinaryReplyThunk | MessageCallbackThunk

type_synonym byte = "8 word"
type_synonym size_t = "64 word"

text \<open>
  \<^verbatim>\<open>FlutterDesktopMessengerRef\<close> and \<^verbatim>\<open>const FlutterDesktopMessage *\<close> are opaque handles
  of the engine; the file only passes them on.
\<close>

type_synonym messenger = nat
type_synonym message = nat

text \<open>
  Undefined behaviour of the C++ program is a value of the model: calling through a null
  block pointer, and touching a heap block whose storage has been freed.
\<close>

datatype fault = NullBlockCall | DeadBlock

text \<open>Every call that leaves the file, in the order it is made.\<close>

datatype event =
    Copied block_ptr block_ptr
  | Released block_ptr
  | ReplyInvoked block_ptr "byte list" size_t
  | CallbackInvoked block_ptr messenger message
  | EngineSend messenger string "byte list" size_t fn_ptr block_ptr
  | EngineSetCallback messenger string fn_ptr block_ptr

text \<open>
  \<open>flutterSwiftCallbacks\<close> is the static \<^verbatim>\<open>std::map<std::string, const void *>\<close> of the
  file (lines 47-48). \<open>refcount\<close> and \<open>next_block\<close> are the heap of the Blocks
  runtime: the reference count of every heap block (0: not allocated) and the next
  identifier it hands out. The mutex \<open>flutterSwiftCallbacksMutex\<close> is held for the
  whole of \<^verbatim>\<open>FlutterDesktopMessengerSetCallbackBlock\<close>; in this sequential model every
  call runs to its end before the next starts, so the lock is not represented.
\<close>

record world =
  flutterSwiftCallbacks :: "string \<rightharpoonup> block_ptr"
  refcount :: "nat \<Rightarrow> nat"
  next_block :: nat
  trace :: "event list"

text \<open>The state at program start: the table is value-initialised (\<^verbatim>\<open>{}\<close>), no heap block exists.\<close>

definition init_world :: world where
  "init_world = \<lparr>flutterSwiftCallbacks = Map.empty, refcount = (\<lambda>_. 0), next_block = 0, trace = []\<rparr>"

definition record_event :: "event \<Rightarrow> world \<Rightarrow> world" where
  "record_event e w = w\<lparr>trace := trace w @ [e]\<rparr>"

subsection \<open>The Blocks runtime\<close>

text \<open>
  \<^verbatim>\<open>_Block_copy\<close> and \<^verbatim>\<open>_Block_release\<close> are only declared in the file (lines 16-19);
  they belong to the host's Blocks runtime, which the spec describes as the
  "reference-counted copy and release operations on opaque callback objects". A heap
  pointer whose block has been freed is a dangling pointer: giving it to the runtime is
  undefined, here \<open>Inl DeadBlock\<close>.
\<close>

text \<open>
  Modelled from the spec: \<^verbatim>\<open>_Block_copy\<close>, whose body is not in the file. It promotes a
  handler to heap lifetime with the reference count incremented: a block on the stack
  is copied to a fresh heap block that holds one reference; for a block that is already
  on the heap the count goes up by one and the same pointer comes back. As in the
  runtime, \<^verbatim>\<open>_Block_copy(NULL)\<close> is \<^verbatim>\<open>NULL\<close>.
\<close>

fun Block_copy :: "block_ptr \<Rightarrow> world \<Rightarrow> fault + block_ptr \<times> world" where
  "Block_copy Null w = Inr (Null, record_event (Copied Null Null) w)"
| "Block_copy (StackBlock s) w =
     (let k = next_block w in
      Inr (HeapBlock k,
           record_event (Copied (StackBlock s) (HeapBlock k))
             (w\<lparr>refcount := (refcount w)(k := 1), next_block := Suc k\<rparr>)))"
| "Block_copy (HeapBlock k) w =
     (if refcount w k = 0 then Inl DeadBlock
      else Inr (HeapBlock k,
                record_event (Copied (HeapBlock k) (HeapBlock k))
                  (w\<lparr>refcount := (refcount w)(k := Suc (refcount w k))\<rparr>)))"

text \<open>
  Modelled from the spec: \<^verbatim>\<open>_Block_release\<close>, whose body is not in the file. It gives
  one reference of a heap block back, and a count that reaches zero deallocates the
  block. As in the runtime, the call does nothing for \<^verbatim>\<open>NULL\<close> and for a block that is
  not on the heap.
\<close>

fun Block_release :: "block_ptr \<Rightarrow> world \<Rightarrow> fault + world" where
  "Block_release Null w = Inr (record_event (Released Null) w)"
| "Block_release (StackBlock s) w = Inr (record_event (Released (StackBlock s)) w)"
| "Block_release (HeapBlock k) w =
     (if refcount w k = 0 then Inl DeadBlock
      else Inr (record_event (Released (HeapBlock k))
                  (w\<lparr>refcount := (refcount w)(k := refcount w k - 1)\<rparr>)))"

text \<open>
  Modelled from the spec: the body of a reply block, which the caller of the send
  supplies ("the callback body (implicit, opaque)"). The call is recorded with the
  block called and its arguments. A call through \<^verbatim>\<open>nullptr\<close> or through a freed heap
  block is undefined.
\<close>

fun call_reply_block :: "block_ptr \<Rightarrow> byte list \<Rightarrow> size_t \<Rightarrow> world \<Rightarrow> fault + world" where
  "call_reply_block Null data data_size w = Inl NullBlockCall"
| "call_reply_block (StackBlock s) data data_size w =
     Inr (record_event (ReplyInvoked (StackBlock s) data data_size) w)"
| "call_reply_block (HeapBlock k) data data_size w =
     (if refcount w k = 0 then Inl DeadBlock
      else Inr (record_event (ReplyInvoked (HeapBlock k) data data_size) w))"

text \<open>
  Modelled from the spec: the body of a channel handler block, which the caller of the
  registration supplies. As for a reply block, the call is recorded.
\<close>

fun call_message_block :: "block_ptr \<Rightarrow> messenger \<Rightarrow> message \<Rightarrow> world \<Rightarrow> fault + world" where
  "call_message_block Null m msg w = Inl NullBlockCall"
| "call_message_block (StackBlock s) m msg w =
     Inr (record_event (CallbackInvoked (StackBlock s) m msg) w)"
| "call_message_block (HeapBlock k) m msg w =
     (if refcount w k = 0 then Inl DeadBlock
      else Inr (record_event (CallbackInvoked (HeapBlock k) m msg) w))"

subsection \<open>The engine's C API\<close>

text \<open>
  \<^verbatim>\<open>FlutterDesktopMessengerSendWithReply\<close> and \<^verbatim>\<open>FlutterDesktopMessengerSetCallback\<close> are
  declared in \<^verbatim>\<open>CxxFlutterSwift.h\<close>, which is not among the sources, and implemented by
  the engine.
\<close>

text \<open>
  Modelled from the spec: the engine's
  \<^verbatim>\<open>send(messenger, channel, bytes, length, replyFnPtr, replyContext) -> bool\<close>. What a
  send answers is the engine's business, so the answer is a parameter, a function of
  the arguments; the call is recorded. The engine delivers a reply later, if at all, by
  calling the function pointer with the context it was given; it never does so inside
  the send.
\<close>

type_synonym send_primitive =
  "messenger \<Rightarrow> string \<Rightarrow> byte list \<Rightarrow> size_t \<Rightarrow> fn_ptr \<Rightarrow> block_ptr \<Rightarrow> bool"

definition FlutterDesktopMessengerSendWithReply ::
  "send_primitive \<Rightarrow> messenger \<Rightarrow> string \<Rightarrow> byte list \<Rightarrow> size_t \<Rightarrow> fn_ptr \<Rightarrow> block_ptr \<Rightarrow>
   world \<Rightarrow> bool \<times> world" where
  "FlutterDesktopMessengerSendWithReply send messenger channel msg message_size reply user_data w =
     (send messenger channel msg message_size reply user_data,
      record_event (EngineSend messenger channel msg message_size reply user_data) w)"

text \<open>
  Modelled from the spec: the engine's
  \<^verbatim>\<open>registerHandler(messenger, channel, handlerFnPtr, handlerContext) -> void\<close>. The
  call is recorded.
\<close>

definition FlutterDesktopMessengerSetCallback ::
  "messenger \<Rightarrow> string \<Rightarrow> fn_ptr \<Rightarrow> block_ptr \<Rightarrow> world \<Rightarrow> world" where
  "FlutterDesktopMessengerSetCallback messenger channel callback user_data w =
     record_event (EngineSetCallback messenger channel callback user_data) w"

text \<open>
  Modelled from the spec: the engine's dispatch table. The registration the engine holds
  for a channel of a messenger is the one of the most recent
  \<^verbatim>\<open>FlutterDesktopMessengerSetCallback\<close> for it; none is \<open>(NullFn, Null)\<close>. The list is
  read most recent call first.
\<close>

fun last_registration :: "event list \<Rightarrow> messenger \<Rightarrow> string \<Rightarrow> fn_ptr \<times> block_ptr" where
  "last_registration [] m ch = (NullFn, Null)"
| "last_registration (EngineSetCallback m' ch' callback user_data # es) m ch =
     (if m' = m \<and> ch' = ch then (callback, user_data) else last_registration es m ch)"
| "last_registration (_ # es) m ch = last_registration es m ch"

definition engine_registration :: "world \<Rightarrow> messenger \<Rightarrow> string \<Rightarrow> fn_ptr \<times> block_ptr" where
  "engine_registration w m ch = last_registration (rev (trace w)) m ch"

subsection \<open>The reply thunk and the send adapter (lines 25-45)\<close>

text \<open>
  The thunk calls the block it gets as \<^verbatim>\<open>user_data\<close> and then releases it. The adapter
  evaluates both conditional arguments, of which the second calls \<^verbatim>\<open>_Block_copy\<close> for
  a non-null block, then calls the engine's send and returns its result.
\<close>

definition FlutterDesktopMessengerBinaryReplyThunk ::
  "byte list \<Rightarrow> size_t \<Rightarrow> block_ptr \<Rightarrow> world \<Rightarrow> fault + world" where
  "FlutterDesktopMessengerBinaryReplyThunk data data_size user_data w =
     (let replyBlock = user_data in
      case call_reply_block replyBlock data data_size w of
        Inl f \<Rightarrow> Inl f
      | Inr w1 \<Rightarrow> Block_release replyBlock w1)"

definition FlutterDesktopMessengerSendWithReplyBlock ::
  "send_primitive \<Rightarrow> messenger \<Rightarrow> string \<Rightarrow> byte list \<Rightarrow> size_t \<Rightarrow> block_ptr \<Rightarrow>
   world \<Rightarrow> fault + bool \<times> world" where
  "FlutterDesktopMessengerSendWithReplyBlock send messenger channel msg message_size replyBlock w =
     (if replyBlock \<noteq> Null then
        (case Block_copy replyBlock w of
           Inl f \<Rightarrow> Inl f
         | Inr (user_data, w1) \<Rightarrow>
             Inr (FlutterDesktopMessengerSendWithReply send messenger channel msg message_size
                    BinaryReplyThunk user_data w1))
      else
        Inr (FlutterDesktopMessengerSendWithReply send messenger channel msg message_size
               NullFn Null w))"

subsection \<open>The callback thunk, the table and the registration adapter (lines 47-74)\<close>

definition FlutterDesktopMessageCallbackThunk ::
  "messenger \<Rightarrow> message \<Rightarrow> block_ptr \<Rightarrow> world \<Rightarrow> fault + world" where
  "FlutterDesktopMessageCallbackThunk messenger msg user_data w =
     (let block = user_data in call_message_block block messenger msg w)"

text \<open>
  \<^verbatim>\<open>flutterSwiftCallbacks[channel]\<close> read as a value: \<^verbatim>\<open>std::map::operator[]\<close> inserts a
  value-initialised entry (\<^verbatim>\<open>nullptr\<close>) when the key is absent and returns the entry.
\<close>

definition callbacks_index :: "string \<Rightarrow> world \<Rightarrow> block_ptr \<times> world" where
  "callbacks_index channel w =
     (case flutterSwiftCallbacks w channel of
        Some p \<Rightarrow> (p, w)
      | None \<Rightarrow> (Null, w\<lparr>flutterSwiftCallbacks := (flutterSwiftCallbacks w)(channel \<mapsto> Null)\<rparr>))"

definition callbacks_erase :: "string \<Rightarrow> world \<Rightarrow> world" where
  "callbacks_erase channel w = w\<lparr>flutterSwiftCallbacks := (flutterSwiftCallbacks w)(channel := None)\<rparr>"

text \<open>
  In the branch of a non-null block, the assignment through \<^verbatim>\<open>operator[]\<close> inserts the
  entry or overwrites the one that is there.
\<close>

definition FlutterDesktopMessengerSetCallbackBlock ::
  "messenger \<Rightarrow> string \<Rightarrow> block_ptr \<Rightarrow> world \<Rightarrow> fault + world" where
  "FlutterDesktopMessengerSetCallbackBlock messenger channel callbackBlock w =
     (if callbackBlock \<noteq> Null then
        (case Block_copy callbackBlock w of
           Inl f \<Rightarrow> Inl f
         | Inr (copied, w1) \<Rightarrow>
             Inr (FlutterDesktopMessengerSetCallback messenger channel MessageCallbackThunk
                    callbackBlock
                    (w1\<lparr>flutterSwiftCallbacks := (flutterSwiftCallbacks w1)(channel \<mapsto> copied)\<rparr>)))
      else
        (let (savedCallbackBlock, w1) = callbacks_index channel w;
             w2 = callbacks_erase channel w1
         in case Block_release savedCallbackBlock w2 of
              Inl f \<Rightarrow> Inl f
            | Inr w3 \<Rightarrow> Inr (FlutterDesktopMessengerSetCallback messenger channel NullFn Null w3)))"

subsection \<open>Predicates of the statements\<close>

text \<open>A pointer the runtime may be given: anything but a heap pointer to a freed block.\<close>

fun valid_block :: "world \<Rightarrow> block_ptr \<Rightarrow> bool" where
  "valid_block w (HeapBlock k) = (0 < refcount w k)"
| "valid_block w _ = True"

text \<open>The allocator's invariant: identifiers not yet handed out name no live block.\<close>

definition heap_ok :: "world \<Rightarrow> bool" where
  "heap_ok w = (\<forall>k. next_block w \<le> k \<longrightarrow> refcount w k = 0)"

text \<open>
  When a call of \<open>FlutterDesktopMessengerSetCallbackBlock\<close> has defined behaviour: the
  block it copies (a non-null handler), or the block it releases (the entry saved for
  the channel, if there is one), is not a dangling pointer.
\<close>

definition set_defined :: "world \<Rightarrow> string \<Rightarrow> block_ptr \<Rightarrow> bool" where
  "set_defined w channel callbackBlock =
     (if callbackBlock \<noteq> Null then valid_block w callbackBlock
      else (case flutterSwiftCallbacks w channel of
              None \<Rightarrow> True
            | Some p \<Rightarrow> valid_block w p))"

text \<open>
  A heap block is orphaned when it still holds a reference and no entry of the table
  points to it: the table cannot find it again to release it.
\<close>

definition orphaned :: "world \<Rightarrow> nat \<Rightarrow> bool" where
  "orphaned w k = (0 < refcount w k \<and> (\<forall>c. flutterSwiftCallbacks w c \<noteq> Some (HeapBlock k)))"

text \<open>A sequence of calls of \<open>FlutterDesktopMessengerSetCallbackBlock\<close>, stopping at a fault.\<close>

fun set_handlers :: "(messenger \<times> string \<times> block_ptr) list \<Rightarrow> world \<Rightarrow> fault + world" where
  "set_handlers [] w = Inr w"
| "set_handlers ((m, ch, h) # calls) w =
     (case FlutterDesktopMessengerSetCallbackBlock m ch h w of
        Inl f \<Rightarrow> Inl f
      | Inr w1 \<Rightarrow> set_handlers calls w1)"

text \<open>
  Two concrete states for the examples. \<open>pending_reply_world\<close> is the state after a send
  on channel \<open>''ch''\<close> whose reply block was the stack block 0; \<open>installed_world\<close> is the
  state after a handler, the stack block 0, was installed for channel \<open>''b''\<close>.
\<close>

definition pending_reply_world :: world where
  "pending_reply_world =
     \<lparr>flutterSwiftCallbacks = Map.empty, refcount = (\<lambda>_. 0)(0 := 1), next_block = 1,
      trace = [Copied (StackBlock 0) (HeapBlock 0),
               EngineSend 1 ''ch'' [104, 105] 2 BinaryReplyThunk (HeapBlock 0)]\<rparr>"

definition installed_world :: world where
  "installed_world =
     \<lparr>flutterSwiftCallbacks = [''b'' \<mapsto> HeapBlock 0], refcount = (\<lambda>_. 0)(0 := 1),
      next_block = 1,
      trace = [Copied (StackBlock 0) (HeapBlock 0),
               EngineSetCallback 1 ''b'' MessageCallbackThunk (StackBlock 0)]\<rparr>"

section \<open>Basic facts\<close>

lemma record_event_fields [simp]:
  "trace (record_event e w) = trace w @ [e]"
  "refcount (record_event e w) = refcount w"
  "next_block (record_event e w) = next_block w"
  "flutterSwiftCallbacks (record_event e w) = flutterSwiftCallbacks w"
  by (simp_all add: record_event_def)

lemma heap_ok_init: "heap_ok init_world"
  by (simp add: heap_ok_def init_world_def)

lemma heap_ok_live_below: "heap_ok w \<Longrightarrow> 0 < refcount w k \<Longrightarrow> k < next_block w"
  by (rule ccontr) (simp add: heap_ok_def not_less)

text \<open>The example states are reached from the initial state by the calls they stand for.\<close>

lemma pending_reply_world_reached:
  "FlutterDesktopMessengerSendWithReplyBlock (\<lambda>_ _ _ _ _ _. True) 1 ''ch'' [104, 105] 2
     (StackBlock 0) init_world = Inr (True, pending_reply_world)"
  by (simp add: FlutterDesktopMessengerSendWithReplyBlock_def
      FlutterDesktopMessengerSendWithReply_def init_world_def pending_reply_world_def
      record_event_def)

lemma installed_world_reached:
  "FlutterDesktopMessengerSetCallbackBlock 1 ''b'' (StackBlock 0) init_world = Inr installed_world"
  by (simp add: FlutterDesktopMessengerSetCallbackBlock_def
      FlutterDesktopMessengerSetCallback_def init_world_def installed_world_def
      record_event_def)

subsection \<open>What copy and release do to a valid pointer\<close>

lemma Block_copy_valid:
  "valid_block w h \<Longrightarrow>
   \<exists>q w1. Block_copy h w = Inr (q, w1)
      \<and> trace w1 = trace w @ [Copied h q]
      \<and> flutterSwiftCallbacks w1 = flutterSwiftCallbacks w"
  by (cases h) (simp_all add: Let_def)

lemma Block_copy_fields:
  "valid_block w h \<Longrightarrow> heap_ok w \<Longrightarrow>
   \<exists>q w1. Block_copy h w = Inr (q, w1)
      \<and> trace w1 = trace w @ [Copied h q]
      \<and> flutterSwiftCallbacks w1 = flutterSwiftCallbacks w
      \<and> valid_block w1 q
      \<and> (case q of HeapBlock k \<Rightarrow> (refcount w1)(k := refcount w1 k - 1) | _ \<Rightarrow> refcount w1)
          = refcount w
      \<and> (case h of StackBlock s \<Rightarrow> q = HeapBlock (next_block w) | _ \<Rightarrow> q = h)"
  by (cases h) (auto simp: Let_def heap_ok_def)

lemma Block_release_valid:
  "valid_block w p \<Longrightarrow>
   \<exists>w1. Block_release p w = Inr w1
      \<and> trace w1 = trace w @ [Released p]
      \<and> flutterSwiftCallbacks w1 = flutterSwiftCallbacks w
      \<and> next_block w1 = next_block w
      \<and> refcount w1 =
          (case p of HeapBlock k \<Rightarrow> (refcount w)(k := refcount w k - 1) | _ \<Rightarrow> refcount w)"
  by (cases p) simp_all

text \<open>The two runtime calls fault exactly on a dangling pointer.\<close>

lemma Block_copy_defined_iff: "(\<exists>r. Block_copy h w = Inr r) \<longleftrightarrow> valid_block w h"
  by (cases h) (simp_all add: Let_def)

lemma Block_release_defined_iff: "(\<exists>r. Block_release p w = Inr r) \<longleftrightarrow> valid_block w p"
  by (cases p) simp_all

lemma set_defined_iff:
  "(\<exists>w'. FlutterDesktopMessengerSetCallbackBlock m ch h w = Inr w') \<longleftrightarrow> set_defined w ch h"
proof (cases "h = Null")
  case False
  then show ?thesis
    using Block_copy_defined_iff [of h w]
    by (auto simp: FlutterDesktopMessengerSetCallbackBlock_def set_defined_def
        split: sum.splits)
next
  case True
  show ?thesis
  proof (cases "flutterSwiftCallbacks w ch")
    case None
    with True show ?thesis
      by (simp add: FlutterDesktopMessengerSetCallbackBlock_def set_defined_def
          callbacks_index_def callbacks_erase_def)
  next
    case (Some p)
    with True show ?thesis
      by (cases p)
        (simp_all add: FlutterDesktopMessengerSetCallbackBlock_def set_defined_def
          callbacks_index_def callbacks_erase_def)
  qed
qed

subsection \<open>The allocator's invariant is kept\<close>

lemma heap_ok_Block_copy:
  "heap_ok w \<Longrightarrow> Block_copy h w = Inr (q, w1) \<Longrightarrow> heap_ok w1"
  by (cases h) (auto simp: heap_ok_def Let_def split: if_splits)

lemma heap_ok_Block_release:
  "heap_ok w \<Longrightarrow> Block_release p w = Inr w1 \<Longrightarrow> heap_ok w1"
  by (cases p) (auto simp: heap_ok_def split: if_splits)

lemma heap_ok_send:
  assumes "heap_ok w"
    and "FlutterDesktopMessengerSendWithReplyBlock send m ch msg n h w = Inr (b, w')"
  shows "heap_ok w'"
proof (cases "h = Null")
  case True
  with assms show ?thesis
    by (auto simp: FlutterDesktopMessengerSendWithReplyBlock_def
        FlutterDesktopMessengerSendWithReply_def heap_ok_def)
next
  case False
  with assms(2) obtain q w1 where c: "Block_copy h w = Inr (q, w1)"
    and w': "w' = record_event (EngineSend m ch msg n BinaryReplyThunk q) w1"
    by (auto simp: FlutterDesktopMessengerSendWithReplyBlock_def
        FlutterDesktopMessengerSendWithReply_def split: sum.splits)
  from heap_ok_Block_copy [OF assms(1) c] show ?thesis
    by (simp add: w' heap_ok_def)
qed

lemma heap_ok_reply_thunk:
  assumes "heap_ok w" and "FlutterDesktopMessengerBinaryReplyThunk data n p w = Inr w'"
  shows "heap_ok w'"
proof -
  from assms(2) obtain w1 where c: "call_reply_block p data n w = Inr w1"
    and r: "Block_release p w1 = Inr w'"
    by (auto simp: FlutterDesktopMessengerBinaryReplyThunk_def Let_def split: sum.splits)
  from c assms(1) have "heap_ok w1"
    by (cases p) (auto simp: heap_ok_def split: if_splits)
  then show ?thesis using r by (rule heap_ok_Block_release)
qed

lemma heap_ok_set:
  assumes "heap_ok w" and "FlutterDesktopMessengerSetCallbackBlock m ch h w = Inr w'"
  shows "heap_ok w'"
proof (cases "h = Null")
  case False
  with assms(2) obtain q w1 where c: "Block_copy h w = Inr (q, w1)"
    and w': "w' = FlutterDesktopMessengerSetCallback m ch MessageCallbackThunk h
                (w1\<lparr>flutterSwiftCallbacks := (flutterSwiftCallbacks w1)(ch \<mapsto> q)\<rparr>)"
    by (auto simp: FlutterDesktopMessengerSetCallbackBlock_def split: sum.splits)
  from heap_ok_Block_copy [OF assms(1) c] show ?thesis
    by (simp add: w' heap_ok_def FlutterDesktopMessengerSetCallback_def)
next
  case True
  obtain p w1 where ix: "callbacks_index ch w = (p, w1)" by (cases "callbacks_index ch w")
  then have "heap_ok w1"
    using assms(1) by (auto simp: callbacks_index_def heap_ok_def split: option.splits)
  then have ok2: "heap_ok (callbacks_erase ch w1)"
    by (simp add: heap_ok_def callbacks_erase_def)
  from assms(2) True ix obtain w3 where rel: "Block_release p (callbacks_erase ch w1) = Inr w3"
    and w': "w' = FlutterDesktopMessengerSetCallback m ch NullFn Null w3"
    by (auto simp: FlutterDesktopMessengerSetCallbackBlock_def split: sum.splits)
  from heap_ok_Block_release [OF ok2 rel] show ?thesis
    by (simp add: w' heap_ok_def FlutterDesktopMessengerSetCallback_def)
qed

section \<open>The reply adapter\<close>

subsection \<open>A send with a reply block\<close>

text \<open>
  With a valid, non-null reply block the function makes exactly two calls, in this
  order: \<^verbatim>\<open>_Block_copy\<close> on the block, and the engine's send with the reply thunk and the
  copy as context. It never calls \<^verbatim>\<open>_Block_release\<close> and never calls the block, whatever
  the engine answers; the copy holds a reference when the function returns.
\<close>

lemma send_with_handler:
  assumes "h \<noteq> Null" and "valid_block w h"
  shows "\<exists>q k w'. FlutterDesktopMessengerSendWithReplyBlock send m ch msg n h w
            = Inr (send m ch msg n BinaryReplyThunk q, w')
         \<and> trace w' = trace w @ [Copied h q, EngineSend m ch msg n BinaryReplyThunk q]
         \<and> q = HeapBlock k \<and> 0 < refcount w' k"
  using assms
  by (cases h) (simp_all add: FlutterDesktopMessengerSendWithReplyBlock_def
      FlutterDesktopMessengerSendWithReply_def Let_def)

text \<open>
  C1. The claim: when the engine's send reports failure for a call with a non-null reply
  block, the promoted handle is released exactly once and the block is never called.
  The function does not do the first. Evaluated at the initial state, with the stack
  block 0 as reply block and an engine whose send answers \<open>False\<close>: the function
  returns \<open>False\<close>; the calls it made are the copy and the send, so the block was not
  called; no release of the promoted handle \<open>HeapBlock 0\<close> was made, and the handle
  still holds its one reference.
\<close>

theorem send_failure_leaks_handle:
  "\<exists>w'. FlutterDesktopMessengerSendWithReplyBlock (\<lambda>_ _ _ _ _ _. False) 1 ''ch'' [1, 2, 3] 3
           (StackBlock 0) init_world = Inr (False, w')
      \<and> trace w' = [Copied (StackBlock 0) (HeapBlock 0),
                    EngineSend 1 ''ch'' [1, 2, 3] 3 BinaryReplyThunk (HeapBlock 0)]
      \<and> count_list (trace w') (Released (HeapBlock 0)) = 0
      \<and> refcount w' 0 = 1"
  by (simp add: FlutterDesktopMessengerSendWithReplyBlock_def
      FlutterDesktopMessengerSendWithReply_def init_world_def Let_def)

subsection \<open>The reply thunk\<close>

text \<open>
  C6. Called with a promoted reply handle (a heap block that holds a reference) as its
  context, the reply thunk makes exactly two calls, in this order: it calls the block
  once, with the bytes and the length it was given, and then releases the handle once.
  The handle's reference count goes down by one; nothing else changes.
\<close>

theorem reply_thunk_invokes_then_releases:
  "0 < refcount w k \<Longrightarrow>
   \<exists>w'. FlutterDesktopMessengerBinaryReplyThunk data n (HeapBlock k) w = Inr w'
      \<and> trace w' = trace w @ [ReplyInvoked (HeapBlock k) data n, Released (HeapBlock k)]
      \<and> refcount w' = (refcount w)(k := refcount w k - 1)
      \<and> next_block w' = next_block w
      \<and> flutterSwiftCallbacks w' = flutterSwiftCallbacks w"
  by (simp add: FlutterDesktopMessengerBinaryReplyThunk_def Let_def)

theorem reply_thunk_invokes_then_releases_witness:
  "0 < refcount pending_reply_world 0
   \<and> (\<exists>w'. FlutterDesktopMessengerBinaryReplyThunk [111, 107] 2 (HeapBlock 0)
              pending_reply_world = Inr w'
         \<and> trace w' = trace pending_reply_world
              @ [ReplyInvoked (HeapBlock 0) [111, 107] 2, Released (HeapBlock 0)]
         \<and> refcount w' 0 = 0
         \<and> flutterSwiftCallbacks w' = flutterSwiftCallbacks pending_reply_world)"
proof -
  have live: "0 < refcount pending_reply_world 0"
    by (simp add: pending_reply_world_def)
  from reply_thunk_invokes_then_releases [OF live, of "[111, 107]" 2]
  obtain w' where
    "FlutterDesktopMessengerBinaryReplyThunk [111, 107] 2 (HeapBlock 0) pending_reply_world
       = Inr w'"
    "trace w' = trace pending_reply_world
       @ [ReplyInvoked (HeapBlock 0) [111, 107] 2, Released (HeapBlock 0)]"
    "refcount w' = (refcount pending_reply_world)(0 := refcount pending_reply_world 0 - 1)"
    "flutterSwiftCallbacks w' = flutterSwiftCallbacks pending_reply_world"
    by blast
  then show ?thesis using live by (auto simp: pending_reply_world_def)
qed

text \<open>
  The engine is trusted to deliver a reply at most once. A second delivery to a handle
  that held one reference calls through a freed block.
\<close>

lemma reply_thunk_second_delivery:
  assumes "refcount w k = 1"
    and "FlutterDesktopMessengerBinaryReplyThunk data n (HeapBlock k) w = Inr w1"
  shows "FlutterDesktopMessengerBinaryReplyThunk data' n' (HeapBlock k) w1 = Inl DeadBlock"
  using assms by (auto simp: FlutterDesktopMessengerBinaryReplyThunk_def Let_def)

text \<open>
  On the path the file's comment describes (line 23), the copy made by the send and the
  release made by the thunk pair up: when the engine delivers the reply to the context
  it was given, every reference count is afterwards what it was before the send.
\<close>

lemma send_then_reply_balanced:
  assumes nn: "h \<noteq> Null" and v: "valid_block w h" and ok: "heap_ok w"
  shows "\<exists>b q w1 w2.
      FlutterDesktopMessengerSendWithReplyBlock send m ch msg n h w = Inr (b, w1)
    \<and> last (trace w1) = EngineSend m ch msg n BinaryReplyThunk q
    \<and> FlutterDesktopMessengerBinaryReplyThunk data len q w1 = Inr w2
    \<and> trace w2 = trace w @ [Copied h q, EngineSend m ch msg n BinaryReplyThunk q,
                             ReplyInvoked q data len, Released q]
    \<and> refcount w2 = refcount w"
proof -
  from v ok obtain q w0 where c: "Block_copy h w = Inr (q, w0)"
    and t0: "trace w0 = trace w @ [Copied h q]"
    and vq: "valid_block w0 q"
    and orig: "(case q of HeapBlock k \<Rightarrow> (refcount w0)(k := refcount w0 k - 1)
                | _ \<Rightarrow> refcount w0) = refcount w"
    and which: "(case h of StackBlock s \<Rightarrow> q = HeapBlock (next_block w) | _ \<Rightarrow> q = h)"
    using Block_copy_fields by blast
  from which nn obtain k where q: "q = HeapBlock k"
    by (cases h) simp_all
  define w1 where "w1 = record_event (EngineSend m ch msg n BinaryReplyThunk q) w0"
  have s1: "FlutterDesktopMessengerSendWithReplyBlock send m ch msg n h w
              = Inr (send m ch msg n BinaryReplyThunk q, w1)"
    using nn c by (simp add: FlutterDesktopMessengerSendWithReplyBlock_def
        FlutterDesktopMessengerSendWithReply_def w1_def)
  have live: "0 < refcount w1 k"
    using vq q by (simp add: w1_def)
  have "FlutterDesktopMessengerBinaryReplyThunk data len q w1
          = Inr (record_event (Released q) (record_event (ReplyInvoked q data len) w1
                   \<lparr>refcount := (refcount w1)(k := refcount w1 k - 1)\<rparr>))"
    using live by (simp add: FlutterDesktopMessengerBinaryReplyThunk_def Let_def q)
  moreover have "(refcount w1)(k := refcount w1 k - 1) = refcount w"
    using orig q by (simp add: w1_def)
  ultimately show ?thesis
    using s1 t0 by (simp add: w1_def)
qed

subsection \<open>A send without a reply block\<close>

text \<open>
  C7. A call of \<open>FlutterDesktopMessengerSendWithReplyBlock\<close> with a null reply block
  calls the engine's send once, with a null function pointer and a null context, and
  nothing else: no block is copied, the Blocks heap and the table are as before, and the
  result is the boolean the engine's send answered for exactly those arguments.
\<close>

theorem send_null_handler:
  "\<exists>w'. FlutterDesktopMessengerSendWithReplyBlock send m ch msg n Null w
          = Inr (send m ch msg n NullFn Null, w')
       \<and> trace w' = trace w @ [EngineSend m ch msg n NullFn Null]
       \<and> refcount w' = refcount w
       \<and> next_block w' = next_block w
       \<and> flutterSwiftCallbacks w' = flutterSwiftCallbacks w"
  by (simp add: FlutterDesktopMessengerSendWithReplyBlock_def
      FlutterDesktopMessengerSendWithReply_def)

subsection \<open>The result and the frame of a send\<close>

text \<open>
  C9. For every messenger, channel, buffer, length and reply block (null or not; a heap
  block must not be dangling, or the copy is undefined), the function returns, and its
  result is the boolean the engine's send answered for the arguments the function
  passed: the last call made is that send, with the reply thunk and some context
  \<open>ctx\<close> for a non-null block and with null and null otherwise.
\<close>

theorem send_returns_primitive_result:
  "valid_block w h \<Longrightarrow>
   \<exists>ctx w'. FlutterDesktopMessengerSendWithReplyBlock send m ch msg n h w
         = Inr (send m ch msg n (if h = Null then NullFn else BinaryReplyThunk) ctx, w')
       \<and> last (trace w')
           = EngineSend m ch msg n (if h = Null then NullFn else BinaryReplyThunk) ctx"
  by (cases h) (simp_all add: FlutterDesktopMessengerSendWithReplyBlock_def
      FlutterDesktopMessengerSendWithReply_def Let_def)

theorem send_returns_primitive_result_witness:
  "valid_block installed_world (HeapBlock 0)
   \<and> (\<exists>ctx w'. FlutterDesktopMessengerSendWithReplyBlock
                  (\<lambda>m ch msg n reply ctx. ch = ''known'') 1 ''other'' [7] 1 (HeapBlock 0)
                  installed_world = Inr (False, w')
         \<and> last (trace w') = EngineSend 1 ''other'' [7] 1 BinaryReplyThunk ctx)"
proof -
  have v: "valid_block installed_world (HeapBlock 0)"
    by (simp add: installed_world_def)
  from send_returns_primitive_result [OF v,
      of "\<lambda>m ch msg n reply ctx. ch = ''known''" 1 "''other''" "[7]" 1]
  show ?thesis using v by simp
qed

text \<open>
  C10. A call of \<open>FlutterDesktopMessengerSendWithReplyBlock\<close> leaves the table
  \<open>flutterSwiftCallbacks\<close> as it was, for every channel, whatever the reply block (null
  or not; a heap block must not be dangling) and whatever the engine's send answers.
\<close>

theorem send_leaves_registry:
  "valid_block w h \<Longrightarrow>
   \<exists>b w'. FlutterDesktopMessengerSendWithReplyBlock send m ch msg n h w = Inr (b, w')
       \<and> flutterSwiftCallbacks w' = flutterSwiftCallbacks w"
  by (cases h) (simp_all add: FlutterDesktopMessengerSendWithReplyBlock_def
      FlutterDesktopMessengerSendWithReply_def Let_def)

theorem send_leaves_registry_witness:
  "valid_block installed_world (StackBlock 5)
   \<and> (\<exists>b w'. FlutterDesktopMessengerSendWithReplyBlock (\<lambda>_ _ _ _ _ _. False) 1 ''b'' [] 0
                (StackBlock 5) installed_world = Inr (b, w')
         \<and> flutterSwiftCallbacks w' ''b'' = Some (HeapBlock 0)
         \<and> flutterSwiftCallbacks w' ''a'' = None)"
proof -
  have v: "valid_block installed_world (StackBlock 5)" by simp
  from send_leaves_registry [OF v, of "\<lambda>_ _ _ _ _ _. False" 1 "''b''" "[]" 0]
  obtain b w' where
    "FlutterDesktopMessengerSendWithReplyBlock (\<lambda>_ _ _ _ _ _. False) 1 ''b'' [] 0
       (StackBlock 5) installed_world = Inr (b, w')"
    "flutterSwiftCallbacks w' = flutterSwiftCallbacks installed_world"
    by blast
  then show ?thesis using v by (auto simp: installed_world_def)
qed

section \<open>The channel callback registry\<close>

subsection \<open>Installing a handler\<close>

text \<open>
  With a valid, non-null handler the function makes exactly two calls, in this order:
  \<^verbatim>\<open>_Block_copy\<close> on the handler, and the engine's registration with the callback thunk
  and the handler \<^emph>\<open>as it was passed\<close> as context. The copy goes into the table. It
  never calls \<^verbatim>\<open>_Block_release\<close>: an entry that was in the table for the channel is
  overwritten, not released.
\<close>

lemma install_handler:
  assumes "h \<noteq> Null" and "valid_block w h"
  shows "\<exists>q w'. FlutterDesktopMessengerSetCallbackBlock m ch h w = Inr w'
         \<and> trace w' = trace w @ [Copied h q, EngineSetCallback m ch MessageCallbackThunk h]
         \<and> flutterSwiftCallbacks w' = (flutterSwiftCallbacks w)(ch \<mapsto> q)
         \<and> engine_registration w' m ch = (MessageCallbackThunk, h)
         \<and> (case h of StackBlock s \<Rightarrow> q = HeapBlock (next_block w) | _ \<Rightarrow> q = h)"
  using assms
  by (cases h) (simp_all add: FlutterDesktopMessengerSetCallbackBlock_def
      FlutterDesktopMessengerSetCallback_def engine_registration_def Let_def)

text \<open>
  C2. The claim: installing a handler B on a channel that has a handler A removes and
  releases A's promoted object, so that its reference count reaches zero and B's is the
  only live promoted handler of the channel. The function does not release A's object.
  Evaluated from the initial state on channel \<open>''ch''\<close>, with the stack blocks 0 (A) and
  1 (B): after the second call the table holds B's copy \<open>HeapBlock 1\<close>, no release of
  A's copy \<open>HeapBlock 0\<close> was made, and both copies hold one reference. Clearing the
  channel afterwards releases B's copy and leaves A's with its reference.
\<close>

theorem replace_keeps_old_handler_alive:
  "\<exists>w1 w2 w3.
      FlutterDesktopMessengerSetCallbackBlock 1 ''ch'' (StackBlock 0) init_world = Inr w1
    \<and> flutterSwiftCallbacks w1 ''ch'' = Some (HeapBlock 0)
    \<and> FlutterDesktopMessengerSetCallbackBlock 1 ''ch'' (StackBlock 1) w1 = Inr w2
    \<and> flutterSwiftCallbacks w2 ''ch'' = Some (HeapBlock 1)
    \<and> refcount w2 0 = 1 \<and> refcount w2 1 = 1
    \<and> count_list (trace w2) (Released (HeapBlock 0)) = 0
    \<and> FlutterDesktopMessengerSetCallbackBlock 1 ''ch'' Null w2 = Inr w3
    \<and> flutterSwiftCallbacks w3 ''ch'' = None
    \<and> refcount w3 0 = 1 \<and> refcount w3 1 = 0"
  by (simp add: FlutterDesktopMessengerSetCallbackBlock_def callbacks_index_def
      callbacks_erase_def FlutterDesktopMessengerSetCallback_def init_world_def Let_def)

text \<open>
  The same holds from every state: a replacement orphans the old entry's block, and no
  later sequence of calls of the function, with handlers other than the orphaned block
  itself, gives its reference back.
\<close>

lemma replace_orphans_old:
  assumes ok: "heap_ok w"
    and old: "flutterSwiftCallbacks w ch = Some (HeapBlock a)" and live: "0 < refcount w a"
    and only: "\<forall>c. c \<noteq> ch \<longrightarrow> flutterSwiftCallbacks w c \<noteq> Some (HeapBlock a)"
    and new: "h \<noteq> Null" "valid_block w h" "h \<noteq> HeapBlock a"
  shows "\<exists>q w'. FlutterDesktopMessengerSetCallbackBlock m ch h w = Inr w'
      \<and> trace w' = trace w @ [Copied h q, EngineSetCallback m ch MessageCallbackThunk h]
      \<and> flutterSwiftCallbacks w' ch = Some q
      \<and> orphaned w' a \<and> refcount w' a = refcount w a"
proof -
  from live ok have lt: "a < next_block w"
    by (simp add: heap_ok_live_below)
  from new lt obtain q w1 where c: "Block_copy h w = Inr (q, w1)"
    and t1: "trace w1 = trace w @ [Copied h q]"
    and r1: "flutterSwiftCallbacks w1 = flutterSwiftCallbacks w"
    and q: "q \<noteq> HeapBlock a" and rc: "refcount w1 a = refcount w a"
    by (cases h) (auto simp: Let_def)
  with new(1) only live show ?thesis
    by (auto simp: FlutterDesktopMessengerSetCallbackBlock_def orphaned_def
        FlutterDesktopMessengerSetCallback_def)
qed

lemma orphaned_set:
  assumes ok: "heap_ok w" and orph: "orphaned w k" and other: "h \<noteq> HeapBlock k"
    and step: "FlutterDesktopMessengerSetCallbackBlock m ch h w = Inr w'"
  shows "orphaned w' k \<and> refcount w' k = refcount w k"
proof (cases "h = Null")
  case False
  with step obtain q w1 where c: "Block_copy h w = Inr (q, w1)"
    and w': "w' = FlutterDesktopMessengerSetCallback m ch MessageCallbackThunk h
                (w1\<lparr>flutterSwiftCallbacks := (flutterSwiftCallbacks w1)(ch \<mapsto> q)\<rparr>)"
    by (auto simp: FlutterDesktopMessengerSetCallbackBlock_def split: sum.splits)
  from orph ok have lt: "k < next_block w"
    by (simp add: orphaned_def heap_ok_live_below)
  from c other lt have "q \<noteq> HeapBlock k" and "refcount w1 k = refcount w k"
    and "flutterSwiftCallbacks w1 = flutterSwiftCallbacks w"
    by (cases h; auto simp: Let_def split: if_splits)+
  with orph show ?thesis
    by (simp add: w' orphaned_def FlutterDesktopMessengerSetCallback_def)
next
  case True
  obtain p w1 where ix: "callbacks_index ch w = (p, w1)" by (cases "callbacks_index ch w")
  from ix orph have p: "p \<noteq> HeapBlock k" and rc1: "refcount w1 = refcount w"
    and reg1: "\<forall>c. flutterSwiftCallbacks w1 c \<noteq> Some (HeapBlock k)"
    by (auto simp: callbacks_index_def orphaned_def split: option.splits if_splits)
  from step True ix obtain w3 where rel: "Block_release p (callbacks_erase ch w1) = Inr w3"
    and w': "w' = FlutterDesktopMessengerSetCallback m ch NullFn Null w3"
    by (auto simp: FlutterDesktopMessengerSetCallbackBlock_def split: sum.splits)
  from rel p rc1 reg1 have "refcount w3 k = refcount w k"
    and "\<forall>c. flutterSwiftCallbacks w3 c \<noteq> Some (HeapBlock k)"
    by (cases p; auto simp: callbacks_erase_def split: if_splits)+
  with orph show ?thesis
    by (simp add: w' orphaned_def FlutterDesktopMessengerSetCallback_def)
qed

lemma orphaned_forever:
  "heap_ok w \<Longrightarrow> orphaned w k \<Longrightarrow> \<forall>(m, ch, h) \<in> set calls. h \<noteq> HeapBlock k \<Longrightarrow>
   set_handlers calls w = Inr w' \<Longrightarrow> orphaned w' k \<and> refcount w' k = refcount w k"
proof (induction calls arbitrary: w)
  case Nil
  then show ?case by simp
next
  case (Cons c calls)
  obtain m ch h where c: "c = (m, ch, h)" by (cases c)
  from Cons.prems(4) c obtain w1
    where s1: "FlutterDesktopMessengerSetCallbackBlock m ch h w = Inr w1"
      and rest: "set_handlers calls w1 = Inr w'"
    by (auto split: sum.splits)
  from Cons.prems(3) c have h: "h \<noteq> HeapBlock k"
    and tl: "\<forall>(m, ch, h) \<in> set calls. h \<noteq> HeapBlock k"
    by auto
  from orphaned_set [OF Cons.prems(1,2) h s1] heap_ok_set [OF Cons.prems(1) s1]
    Cons.IH [OF _ _ tl rest]
  show ?case by simp
qed

text \<open>
  C3. The claim: the context registered with the engine for a non-null handler is the
  promoted copy, the object the table holds, not the handler as the caller passed it.
  The function registers the handler as passed. Evaluated at the initial state with the
  stack block 0 as handler: the table holds the copy \<open>HeapBlock 0\<close>, and the engine's
  registration for the channel is the callback thunk with context \<open>StackBlock 0\<close>.
\<close>

theorem set_handler_context_is_original:
  "\<exists>w'. FlutterDesktopMessengerSetCallbackBlock 1 ''ch'' (StackBlock 0) init_world = Inr w'
      \<and> flutterSwiftCallbacks w' ''ch'' = Some (HeapBlock 0)
      \<and> engine_registration w' 1 ''ch'' = (MessageCallbackThunk, StackBlock 0)
      \<and> trace w' = [Copied (StackBlock 0) (HeapBlock 0),
                    EngineSetCallback 1 ''ch'' MessageCallbackThunk (StackBlock 0)]"
  by (simp add: FlutterDesktopMessengerSetCallbackBlock_def
      FlutterDesktopMessengerSetCallback_def engine_registration_def init_world_def Let_def)

subsection \<open>Clearing a handler\<close>

text \<open>
  An install and the clear that follows it pair up, from every state: both calls return;
  the promoted copy \<open>q\<close> that the install stored is the block the clear releases, once;
  afterwards the table has no entry for the channel, every heap block has the reference
  count it had before the install (a copy that the install created from a stack block
  is deallocated), and the engine's registration for the channel is the null function
  pointer with the null context. The handler must be a pointer the runtime may be
  given, and the heap must satisfy the allocator's invariant. This says nothing about a
  copy that was in the table before the install: the pair leaves its count as it was.
\<close>

lemma install_then_clear_balanced:
  assumes nn: "h \<noteq> Null" and v: "valid_block w h" and ok: "heap_ok w"
  shows "\<exists>q w1 w2.
      FlutterDesktopMessengerSetCallbackBlock m ch h w = Inr w1
    \<and> flutterSwiftCallbacks w1 ch = Some q
    \<and> FlutterDesktopMessengerSetCallbackBlock m ch Null w1 = Inr w2
    \<and> flutterSwiftCallbacks w2 ch = None
    \<and> refcount w2 = refcount w
    \<and> (case h of StackBlock s \<Rightarrow> q = HeapBlock (next_block w) \<and> refcount w2 (next_block w) = 0
        | _ \<Rightarrow> q = h)
    \<and> trace w2 = trace w @ [Copied h q, EngineSetCallback m ch MessageCallbackThunk h,
                             Released q, EngineSetCallback m ch NullFn Null]
    \<and> engine_registration w2 m ch = (NullFn, Null)"
proof -
  from v ok obtain q w0 where c: "Block_copy h w = Inr (q, w0)"
    and t0: "trace w0 = trace w @ [Copied h q]"
    and vq: "valid_block w0 q"
    and orig: "(case q of HeapBlock k \<Rightarrow> (refcount w0)(k := refcount w0 k - 1)
                | _ \<Rightarrow> refcount w0) = refcount w"
    and which: "(case h of StackBlock s \<Rightarrow> q = HeapBlock (next_block w) | _ \<Rightarrow> q = h)"
    using Block_copy_fields by blast
  define w1 where "w1 = FlutterDesktopMessengerSetCallback m ch MessageCallbackThunk h
      (w0\<lparr>flutterSwiftCallbacks := (flutterSwiftCallbacks w0)(ch \<mapsto> q)\<rparr>)"
  have s1: "FlutterDesktopMessengerSetCallbackBlock m ch h w = Inr w1"
    using nn c by (simp add: FlutterDesktopMessengerSetCallbackBlock_def w1_def)
  have reg1: "flutterSwiftCallbacks w1 ch = Some q"
    and t1: "trace w1 = trace w @ [Copied h q, EngineSetCallback m ch MessageCallbackThunk h]"
    and rc1: "refcount w1 = refcount w0"
    using t0 by (simp_all add: w1_def FlutterDesktopMessengerSetCallback_def)
  have ix: "callbacks_index ch w1 = (q, w1)"
    using reg1 by (simp add: callbacks_index_def)
  let ?w2 = "callbacks_erase ch w1"
  have "valid_block ?w2 q"
    using vq rc1 by (cases q) (simp_all add: callbacks_erase_def)
  then obtain w3 where rel: "Block_release q ?w2 = Inr w3"
    and t3: "trace w3 = trace ?w2 @ [Released q]"
    and r3: "flutterSwiftCallbacks w3 = flutterSwiftCallbacks ?w2"
    and rc3: "refcount w3 = (case q of HeapBlock k \<Rightarrow> (refcount ?w2)(k := refcount ?w2 k - 1)
                              | _ \<Rightarrow> refcount ?w2)"
    using Block_release_valid by blast
  define w2 where "w2 = FlutterDesktopMessengerSetCallback m ch NullFn Null w3"
  have s2: "FlutterDesktopMessengerSetCallbackBlock m ch Null w1 = Inr w2"
    using ix rel by (simp add: FlutterDesktopMessengerSetCallbackBlock_def w2_def)
  have "refcount ?w2 = refcount w0"
    using rc1 by (simp add: callbacks_erase_def)
  with rc3 orig have rc2: "refcount w2 = refcount w"
    by (cases q) (simp_all add: w2_def FlutterDesktopMessengerSetCallback_def)
  have fresh: "refcount w (next_block w) = 0"
    using ok by (simp add: heap_ok_def)
  have dead: "(case h of StackBlock s \<Rightarrow> q = HeapBlock (next_block w) \<and> refcount w2 (next_block w) = 0
        | _ \<Rightarrow> q = h)"
    using which rc2 fresh by (cases h) simp_all
  have reg2: "flutterSwiftCallbacks w2 ch = None"
    using r3 by (simp add: w2_def FlutterDesktopMessengerSetCallback_def callbacks_erase_def)
  have t2: "trace w2 = trace w @ [Copied h q, EngineSetCallback m ch MessageCallbackThunk h,
                             Released q, EngineSetCallback m ch NullFn Null]"
    using t3 t1 by (simp add: w2_def FlutterDesktopMessengerSetCallback_def callbacks_erase_def)
  have e2: "engine_registration w2 m ch = (NullFn, Null)"
    using t2 by (simp add: engine_registration_def)
  from s1 reg1 s2 reg2 rc2 dead t2 e2 show ?thesis by blast
qed

lemma install_then_clear_balanced_example:
  "StackBlock 3 \<noteq> Null \<and> valid_block installed_world (StackBlock 3) \<and> heap_ok installed_world
   \<and> (\<exists>w1 w2.
        FlutterDesktopMessengerSetCallbackBlock 2 ''a'' (StackBlock 3) installed_world = Inr w1
      \<and> flutterSwiftCallbacks w1 ''a'' = Some (HeapBlock 1)
      \<and> FlutterDesktopMessengerSetCallbackBlock 2 ''a'' Null w1 = Inr w2
      \<and> flutterSwiftCallbacks w2 ''a'' = None
      \<and> refcount w2 = refcount installed_world
      \<and> refcount w2 1 = 0
      \<and> trace w2 = trace installed_world
           @ [Copied (StackBlock 3) (HeapBlock 1),
              EngineSetCallback 2 ''a'' MessageCallbackThunk (StackBlock 3),
              Released (HeapBlock 1), EngineSetCallback 2 ''a'' NullFn Null]
      \<and> engine_registration w2 2 ''a'' = (NullFn, Null))"
proof -
  have nb: "next_block installed_world = 1"
    by (simp add: installed_world_def)
  have ok: "heap_ok installed_world"
    by (simp add: heap_ok_def installed_world_def)
  have v: "valid_block installed_world (StackBlock 3)" by simp
  from install_then_clear_balanced [OF _ v ok, of 2 "''a''"]
  show ?thesis using ok nb by auto
qed

text \<open>
  C4. The claim: for every channel, installing a non-null handler and then clearing the
  channel leaves no live promoted handler object for that channel, no entry for it in
  the table, and the engine's registration for it null with a null context. The last
  two hold; the first fails on a channel that has a handler when the pair starts,
  because the install overwrites that handler's copy without releasing it. Evaluated at
  \<open>installed_world\<close>, where channel \<open>''b''\<close> holds the copy \<open>HeapBlock 0\<close> of the
  stack block 0, with the stack block 1 as the new handler: both calls return; the calls
  made for \<open>''b''\<close> since program start are the two copies, the two registrations, one
  release, of the newer copy \<open>HeapBlock 1\<close>, and the null registration; afterwards
  the table has no entry for \<open>''b''\<close>, the engine's registration is null with a null
  context, the newer copy is deallocated, and the copy \<open>HeapBlock 0\<close> that was promoted
  for \<open>''b''\<close> was never released and still holds its reference, with no entry of the
  table pointing to it.
\<close>

theorem install_then_clear_leaves_replaced_copy:
  "\<exists>w1 w2.
      FlutterDesktopMessengerSetCallbackBlock 1 ''b'' (StackBlock 1) installed_world = Inr w1
    \<and> flutterSwiftCallbacks w1 ''b'' = Some (HeapBlock 1)
    \<and> FlutterDesktopMessengerSetCallbackBlock 1 ''b'' Null w1 = Inr w2
    \<and> flutterSwiftCallbacks w2 ''b'' = None
    \<and> engine_registration w2 1 ''b'' = (NullFn, Null)
    \<and> trace w2 = [Copied (StackBlock 0) (HeapBlock 0),
                   EngineSetCallback 1 ''b'' MessageCallbackThunk (StackBlock 0),
                   Copied (StackBlock 1) (HeapBlock 1),
                   EngineSetCallback 1 ''b'' MessageCallbackThunk (StackBlock 1),
                   Released (HeapBlock 1),
                   EngineSetCallback 1 ''b'' NullFn Null]
    \<and> count_list (trace w2) (Released (HeapBlock 0)) = 0
    \<and> refcount w2 1 = 0
    \<and> refcount w2 0 = 1
    \<and> orphaned w2 0"
  by (simp add: FlutterDesktopMessengerSetCallbackBlock_def callbacks_index_def
      callbacks_erase_def FlutterDesktopMessengerSetCallback_def engine_registration_def
      installed_world_def orphaned_def Let_def)

text \<open>
  C5. Clearing a channel that has no entry in the table: the call returns; the one
  release it makes is of the null pointer that the table's index operator put in, so no
  block's reference count changes; the table is as before, without an entry for the
  channel; and the engine's registration for the channel is the null function pointer
  with the null context.
\<close>

theorem clear_absent_channel:
  "flutterSwiftCallbacks w ch = None \<Longrightarrow>
   \<exists>w'. FlutterDesktopMessengerSetCallbackBlock m ch Null w = Inr w'
      \<and> flutterSwiftCallbacks w' ch = None
      \<and> flutterSwiftCallbacks w' = flutterSwiftCallbacks w
      \<and> refcount w' = refcount w
      \<and> next_block w' = next_block w
      \<and> trace w' = trace w @ [Released Null, EngineSetCallback m ch NullFn Null]
      \<and> engine_registration w' m ch = (NullFn, Null)"
  by (simp add: FlutterDesktopMessengerSetCallbackBlock_def callbacks_index_def
      callbacks_erase_def FlutterDesktopMessengerSetCallback_def engine_registration_def
      fun_upd_idem)

theorem clear_absent_channel_witness:
  "flutterSwiftCallbacks installed_world ''a'' = None
   \<and> (\<exists>w'. FlutterDesktopMessengerSetCallbackBlock 1 ''a'' Null installed_world = Inr w'
         \<and> flutterSwiftCallbacks w' ''a'' = None
         \<and> flutterSwiftCallbacks w' ''b'' = Some (HeapBlock 0)
         \<and> refcount w' 0 = 1
         \<and> trace w' = trace installed_world
              @ [Released Null, EngineSetCallback 1 ''a'' NullFn Null]
         \<and> engine_registration w' 1 ''a'' = (NullFn, Null))"
proof -
  have absent: "flutterSwiftCallbacks installed_world ''a'' = None"
    by (simp add: installed_world_def)
  from clear_absent_channel [OF absent, of 1]
  obtain w' where
    "FlutterDesktopMessengerSetCallbackBlock 1 ''a'' Null installed_world = Inr w'"
    "flutterSwiftCallbacks w' ''a'' = None"
    "flutterSwiftCallbacks w' = flutterSwiftCallbacks installed_world"
    "refcount w' = refcount installed_world"
    "trace w' = trace installed_world @ [Released Null, EngineSetCallback 1 ''a'' NullFn Null]"
    "engine_registration w' 1 ''a'' = (NullFn, Null)"
    by blast
  then show ?thesis using absent by (auto simp: installed_world_def)
qed

subsection \<open>Other channels\<close>

text \<open>
  C8. For two different channel names \<open>a\<close> and \<open>b\<close>, a call of
  \<open>FlutterDesktopMessengerSetCallbackBlock\<close> for \<open>a\<close> (with a non-null handler, on a
  channel with or without an entry, or with the null handler) returns and leaves the
  table's entry for \<open>b\<close>, or its absence, and the engine's registration for \<open>b\<close> on
  every messenger as they were. The call must be defined: the block it copies or
  releases is not dangling.
\<close>

theorem set_handler_other_channel:
  assumes ab: "a \<noteq> b" and ok: "set_defined w a h"
  shows "\<exists>w'. FlutterDesktopMessengerSetCallbackBlock m a h w = Inr w'
      \<and> flutterSwiftCallbacks w' b = flutterSwiftCallbacks w b
      \<and> (\<forall>m'. engine_registration w' m' b = engine_registration w m' b)"
proof (cases "h = Null")
  case False
  with ok have "valid_block w h" by (simp add: set_defined_def)
  then obtain q w1 where c: "Block_copy h w = Inr (q, w1)"
    and t: "trace w1 = trace w @ [Copied h q]"
    and r: "flutterSwiftCallbacks w1 = flutterSwiftCallbacks w"
    using Block_copy_valid by blast
  from False ab c t r show ?thesis
    by (simp add: FlutterDesktopMessengerSetCallbackBlock_def
        FlutterDesktopMessengerSetCallback_def engine_registration_def)
next
  case True
  obtain p w1 where ix: "callbacks_index a w = (p, w1)" by (cases "callbacks_index a w")
  let ?w2 = "callbacks_erase a w1"
  from ix have tr1: "trace w1 = trace w" and rc1: "refcount w1 = refcount w"
    and reg1: "flutterSwiftCallbacks w1 b = flutterSwiftCallbacks w b"
    using ab by (auto simp: callbacks_index_def split: option.splits)
  from ix ok True have "valid_block w p"
    by (auto simp: callbacks_index_def set_defined_def split: option.splits)
  with rc1 have "valid_block ?w2 p"
    by (cases p) (simp_all add: callbacks_erase_def)
  then obtain w3 where rel: "Block_release p ?w2 = Inr w3"
    and t3: "trace w3 = trace ?w2 @ [Released p]"
    and r3: "flutterSwiftCallbacks w3 = flutterSwiftCallbacks ?w2"
    using Block_release_valid by blast
  from True ix rel t3 r3 tr1 reg1 ab show ?thesis
    by (simp add: FlutterDesktopMessengerSetCallbackBlock_def
        FlutterDesktopMessengerSetCallback_def engine_registration_def callbacks_erase_def)
qed

theorem set_handler_other_channel_witness:
  "''a'' \<noteq> ''b'' \<and> set_defined installed_world ''a'' (StackBlock 1)
   \<and> (\<exists>w'. FlutterDesktopMessengerSetCallbackBlock 1 ''a'' (StackBlock 1) installed_world
              = Inr w'
         \<and> flutterSwiftCallbacks w' ''b'' = Some (HeapBlock 0)
         \<and> engine_registration w' 1 ''b'' = (MessageCallbackThunk, StackBlock 0))"
proof -
  have ab: "''a'' \<noteq> ''b''" by simp
  have ok: "set_defined installed_world ''a'' (StackBlock 1)"
    by (simp add: set_defined_def)
  from set_handler_other_channel [OF ab ok, of 1]
  obtain w' where
    "FlutterDesktopMessengerSetCallbackBlock 1 ''a'' (StackBlock 1) installed_world = Inr w'"
    "flutterSwiftCallbacks w' ''b'' = flutterSwiftCallbacks installed_world ''b''"
    "engine_registration w' 1 ''b'' = engine_registration installed_world 1 ''b''"
    by blast
  then show ?thesis
    using ab ok by (auto simp: installed_world_def engine_registration_def)
qed

end
